theory Spec2Isabelle
  imports Complex_Main
begin

section \<open>Scroll coordinator (module script of StatusTracker.svelte)\<close>

text \<open>
  The module-level script keeps two variables shared by every widget instance:
  \<^verbatim>\<open>items\<close> (the pending elements) and \<^verbatim>\<open>called\<close> (a flush is already scheduled).
  An element is an opaque handle. JavaScript numbers are modelled as real numbers
  (no rounding, no NaN), \<^verbatim>\<open>null\<close> as \<open>None\<close>.

  \<^verbatim>\<open>scroll_into_view\<close> is an \<^verbatim>\<open>async\<close> function: its synchronous part runs up to
  \<^verbatim>\<open>await tick()\<close>; the continuation registers the flush with
  \<^verbatim>\<open>requestAnimationFrame\<close>; the flush runs at the next animation frame. The page
  state therefore also counts the continuations suspended at \<^verbatim>\<open>await tick()\<close> and the
  callbacks queued for the next frame, and logs every \<^verbatim>\<open>window.scrollTo\<close> call (the
  requested \<^verbatim>\<open>top\<close>, always with smooth behaviour).
\<close>

type_synonym element = nat

record page =
  items :: "element list"
  called :: bool
  scrollY :: real
  awaiting_tick :: nat
  raf_queue :: nat
  scroll_calls :: "real list"

text \<open>
  The second argument of \<^verbatim>\<open>scroll_into_view\<close> as the caller passes it: left out or
  undefined, null, or a boolean. The parameter is declared
  \<^verbatim>\<open>enable: boolean | null = true\<close>, so an argument that is left out or undefined
  becomes true before the body runs; null stays null.
\<close>

datatype js_flag = Undefined | Null | Flag bool

fun default_enable :: "js_flag \<Rightarrow> bool option" where
  "default_enable Undefined = Some True"
| "default_enable Null = None"
| "default_enable (Flag b) = Some b"

text \<open>
  The guard of \<^verbatim>\<open>scroll_into_view\<close>. \<^verbatim>\<open>window.__gradio_mode__\<close> is a string or
  undefined (\<open>None\<close>); \<open>enable\<close> is the argument as passed.
\<close>

definition rejected :: "string option \<Rightarrow> js_flag \<Rightarrow> bool" where
  "rejected gradio_mode enable \<longleftrightarrow>
     gradio_mode = Some ''website'' \<or>
     (gradio_mode \<noteq> Some ''app'' \<and> default_enable enable \<noteq> Some True)"

text \<open>The synchronous part of \<^verbatim>\<open>scroll_into_view\<close>, up to \<^verbatim>\<open>await tick()\<close>.\<close>

definition scroll_into_view :: "string option \<Rightarrow> element \<Rightarrow> js_flag \<Rightarrow> page \<Rightarrow> page" where
  "scroll_into_view gradio_mode el enable s =
     (if rejected gradio_mode enable then s
      else
        let s1 = s\<lparr>items := items s @ [el]\<rparr> in
        if \<not> called s1
        then s1\<lparr>called := True, awaiting_tick := awaiting_tick s1 + 1\<rparr>
        else s1)"

text \<open>
  \<^verbatim>\<open>await tick()\<close> resolves: every suspended continuation calls
  \<^verbatim>\<open>requestAnimationFrame\<close> with the flush callback.
\<close>

definition tick_resolved :: "page \<Rightarrow> page" where
  "tick_resolved s = s\<lparr>raf_queue := raf_queue s + awaiting_tick s, awaiting_tick := 0\<rparr>"

text \<open>
  The loop of the flush callback:
  \<^verbatim>\<open>for (let i = 0; i < items.length; i++) { ... if (i === 0 || box.top + window.scrollY <= min[0]) { min[0] = box.top + window.scrollY; min[1] = i; } }\<close>.
  \<open>top_of\<close> is what \<^verbatim>\<open>getBoundingClientRect().top\<close> returns for each element when the
  flush runs, \<open>sy\<close> is \<^verbatim>\<open>window.scrollY\<close>; the arguments \<open>i\<close> and \<open>m\<close> are the loop
  counter and the array \<^verbatim>\<open>min\<close>.
\<close>

fun flush_loop :: "(element \<Rightarrow> real) \<Rightarrow> real \<Rightarrow> element list \<Rightarrow> nat \<Rightarrow> real \<times> nat \<Rightarrow> real \<times> nat" where
  "flush_loop top_of sy [] i m = m"
| "flush_loop top_of sy (e # es) i m =
     flush_loop top_of sy es (Suc i)
       (if i = 0 \<or> top_of e + sy \<le> fst m then (top_of e + sy, i) else m)"

definition flush_min :: "(element \<Rightarrow> real) \<Rightarrow> real \<Rightarrow> element list \<Rightarrow> real \<times> nat" where
  "flush_min top_of sy els = flush_loop top_of sy els 0 (0, 0)"

text \<open>The flush callback: the loop, \<^verbatim>\<open>window.scrollTo\<close>, then the reset of both variables.\<close>

definition flush :: "(element \<Rightarrow> real) \<Rightarrow> page \<Rightarrow> page" where
  "flush top_of s =
     s\<lparr>scroll_calls := scroll_calls s @ [fst (flush_min top_of (scrollY s) (items s)) - 20],
       called := False,
       items := []\<rparr>"

text \<open>An animation frame runs every callback that was queued before it.\<close>

definition page_frame :: "(element \<Rightarrow> real) \<Rightarrow> page \<Rightarrow> page" where
  "page_frame top_of s = (flush top_of ^^ raf_queue s) (s\<lparr>raf_queue := 0\<rparr>)"

text \<open>
  One synchronous update pass: the widgets call \<^verbatim>\<open>scroll_into_view\<close> one after the
  other, each with its element and its \<^verbatim>\<open>enable\<close> argument.
\<close>

fun update_pass :: "string option \<Rightarrow> (element \<times> js_flag) list \<Rightarrow> page \<Rightarrow> page" where
  "update_pass gradio_mode [] s = s"
| "update_pass gradio_mode ((el, enable) # rs) s =
     update_pass gradio_mode rs (scroll_into_view gradio_mode el enable s)"

text \<open>
  The page is coherent when the flag \<^verbatim>\<open>called\<close> says what is scheduled: with the flag
  set, exactly one continuation or one frame callback is outstanding and the list is
  not empty; with the flag clear, nothing is outstanding and the list is empty.
\<close>

definition coherent :: "page \<Rightarrow> bool" where
  "coherent s \<longleftrightarrow>
     (if called s then awaiting_tick s + raf_queue s = 1 \<and> items s \<noteq> []
      else awaiting_tick s = 0 \<and> raf_queue s = 0 \<and> items s = [])"

text \<open>
  What the loop leaves in \<^verbatim>\<open>min\<close> for a non-empty list: the least position, and the
  index of an element at that position; \<open>latest_min\<close> and \<open>earliest_min\<close> are the two
  ways of resolving a tie.
\<close>

definition is_min :: "real list \<Rightarrow> real \<times> nat \<Rightarrow> bool" where
  "is_min ps m \<longleftrightarrow> snd m < length ps \<and> ps ! snd m = fst m \<and> (\<forall>j < length ps. fst m \<le> ps ! j)"

definition latest_min :: "real list \<Rightarrow> real \<times> nat \<Rightarrow> bool" where
  "latest_min ps m \<longleftrightarrow> is_min ps m \<and> (\<forall>j < length ps. ps ! j = fst m \<longrightarrow> j \<le> snd m)"

definition earliest_min :: "real list \<Rightarrow> real \<times> nat \<Rightarrow> bool" where
  "earliest_min ps m \<longleftrightarrow> is_min ps m \<and> (\<forall>j < length ps. ps ! j = fst m \<longrightarrow> snd m \<le> j)"

section \<open>Progress and ETA timer (instance script of StatusTracker.svelte)\<close>

datatype status = Complete | Pending | Error

text \<open>
  The instance variables the timer uses. \<open>timer_flag\<close> is the variable \<^verbatim>\<open>_timer\<close>;
  \<open>raf_pending\<close> counts the callbacks that \<^verbatim>\<open>run\<close> has registered with
  \<^verbatim>\<open>requestAnimationFrame\<close> and that have not run yet; \<open>progress_var\<close> is the
  variable \<^verbatim>\<open>progress\<close>, which the reactive statement assigns. Every function that reads
  \<^verbatim>\<open>performance.now()\<close> takes the reading (milliseconds) as its argument \<open>now\<close>.
\<close>

record tracker =
  eta :: "real option"
  queue :: bool
  status :: status
  timer_flag :: bool
  timer_start :: real
  timer_diff :: real
  old_eta :: "real option"
  formatted_eta :: "string option"
  raf_pending :: nat
  progress_var :: "real option"

definition init_tracker :: "status \<Rightarrow> real option \<Rightarrow> bool \<Rightarrow> tracker" where
  "init_tracker st e q =
     \<lparr>eta = e, queue = q, status = st, timer_flag = False, timer_start = 0, timer_diff = 0,
      old_eta = None, formatted_eta = None, raf_pending = 0, progress_var = None\<rparr>"

text \<open>
  \<^verbatim>\<open>Number.prototype.toFixed(1)\<close> on a real number: the sign, then the integer \<open>n\<close>
  nearest to ten times the magnitude (the larger one on a tie), written in decimal
  with a point before its last digit. (The exponent notation of magnitudes from
  \<open>10\<^sup>2\<^sup>1\<close> on is left out.)
\<close>

definition digit_char :: "nat \<Rightarrow> char" where
  "digit_char d = ''0123456789'' ! (d mod 10)"

function decimal :: "nat \<Rightarrow> string" where
  "decimal n = (if n < 10 then [digit_char n] else decimal (n div 10) @ [digit_char n])"
  by pat_completeness auto
termination
  by (relation "measure id") auto

definition toFixed1 :: "real \<Rightarrow> string" where
  "toFixed1 x =
     (let n = nat \<lfloor>\<bar>x\<bar> * 10 + 1 / 2\<rfloor>;
          m = decimal (n div 10) @ ''.'' @ [digit_char n]
      in if x < 0 then ''-'' @ m else m)"

text \<open>\<^verbatim>\<open>$: progress = eta === null || eta <= 0 || !timer_diff ? null : Math.min(timer_diff / eta, 1)\<close>\<close>

definition progress :: "real option \<Rightarrow> real \<Rightarrow> real option" where
  "progress e d =
     (case e of
        None \<Rightarrow> None
      | Some x \<Rightarrow> if x \<le> 0 \<or> d = 0 then None else Some (min (d / x) 1))"

text \<open>
  The progress fraction in the specification's words: elapsed / eta clamped to
  \<open>[0, 1]\<close>, undefined when eta is null or non-positive or elapsed is falsy.
\<close>

definition spec_progress :: "real option \<Rightarrow> real \<Rightarrow> real option" where
  "spec_progress e d =
     (case e of
        None \<Rightarrow> None
      | Some x \<Rightarrow> if x \<le> 0 \<or> d = 0 then None else Some (max 0 (min 1 (d / x))))"

text \<open>\<^verbatim>\<open>run\<close> registers one callback with \<^verbatim>\<open>requestAnimationFrame\<close>.\<close>

definition run :: "tracker \<Rightarrow> tracker" where
  "run s = s\<lparr>raf_pending := raf_pending s + 1\<rparr>"

text \<open>The callback: \<^verbatim>\<open>timer_diff = (performance.now() - timer_start) / 1000; if (_timer) run();\<close>\<close>

definition run_callback :: "real \<Rightarrow> tracker \<Rightarrow> tracker" where
  "run_callback now s =
     (let s1 = s\<lparr>timer_diff := (now - timer_start s) / 1000\<rparr>
      in if timer_flag s1 then run s1 else s1)"

definition start_timer :: "real \<Rightarrow> tracker \<Rightarrow> tracker" where
  "start_timer now s = run (s\<lparr>timer_start := now, timer_diff := 0, timer_flag := True\<rparr>)"

definition stop_timer :: "tracker \<Rightarrow> tracker" where
  "stop_timer s =
     (let s1 = s\<lparr>timer_diff := 0\<rparr>
      in if \<not> timer_flag s1 then s1 else s1\<lparr>timer_flag := False\<rparr>)"

definition onDestroy :: "tracker \<Rightarrow> tracker" where
  "onDestroy s = (if timer_flag s then stop_timer s else s)"

text \<open>\<^verbatim>\<open>$: { if (status === "pending") { start_timer(); } else { stop_timer(); } }\<close>\<close>

definition status_block :: "real \<Rightarrow> tracker \<Rightarrow> tracker" where
  "status_block now s = (if status s = Pending then start_timer now s else stop_timer s)"

text \<open>
  The reactive block that computes the eta:
  \<^verbatim>\<open>if (eta === null) { eta = old_eta; } else if (queue) { eta = (performance.now() - timer_start) / 1000 + eta; }
  if (eta != null) { formatted_eta = eta.toFixed(1); old_eta = eta; }\<close>
\<close>

definition eta_block :: "real \<Rightarrow> tracker \<Rightarrow> tracker" where
  "eta_block now s =
     (let s1 = (case eta s of
                  None \<Rightarrow> s\<lparr>eta := old_eta s\<rparr>
                | Some e \<Rightarrow>
                    if queue s then s\<lparr>eta := Some ((now - timer_start s) / 1000 + e)\<rparr> else s)
      in case eta s1 of
           None \<Rightarrow> s1
         | Some e' \<Rightarrow> s1\<lparr>formatted_eta := Some (toFixed1 e'), old_eta := Some e'\<rparr>)"

text \<open>\<^verbatim>\<open>$: formatted_timer = timer_diff.toFixed(1)\<close>\<close>

definition formatted_timer :: "tracker \<Rightarrow> string" where
  "formatted_timer s = toFixed1 (timer_diff s)"

text \<open>
  An animation frame runs every callback of \<^verbatim>\<open>run\<close> that was queued before it; a
  callback registered during the frame waits for the next one. All callbacks of a
  frame read the same clock value.
\<close>

definition animation_frame :: "real \<Rightarrow> tracker \<Rightarrow> tracker" where
  "animation_frame now s = (run_callback now ^^ raf_pending s) (s\<lparr>raf_pending := 0\<rparr>)"

text \<open>
  What can happen to a widget, one step at a time: the host sets a property, a
  reactive block runs, an animation frame passes, the widget is torn down. Each step
  comes with the reading of \<^verbatim>\<open>performance.now()\<close> at that moment.
\<close>

datatype timer_op =
    Set_status status
  | Set_eta "real option"
  | Set_queue bool
  | Status_block
  | Eta_block
  | Frame
  | Destroy

fun exec_op :: "real \<Rightarrow> timer_op \<Rightarrow> tracker \<Rightarrow> tracker" where
  "exec_op now (Set_status st) s = s\<lparr>status := st\<rparr>"
| "exec_op now (Set_eta e) s = s\<lparr>eta := e\<rparr>"
| "exec_op now (Set_queue q) s = s\<lparr>queue := q\<rparr>"
| "exec_op now Status_block s = status_block now s"
| "exec_op now Eta_block s = eta_block now s"
| "exec_op now Frame s = animation_frame now s"
| "exec_op now Destroy s = onDestroy s"

fun run_ops :: "(real \<times> timer_op) list \<Rightarrow> tracker \<Rightarrow> tracker" where
  "run_ops [] s = s"
| "run_ops ((now, op) # ops) s = run_ops ops (exec_op now op s)"

text \<open>\<^verbatim>\<open>performance.now()\<close> is monotonic: the readings of a run never decrease.\<close>

fun monotonic :: "real \<Rightarrow> (real \<times> timer_op) list \<Rightarrow> bool" where
  "monotonic t [] = True"
| "monotonic t ((now, op) # ops) = (t \<le> now \<and> monotonic now ops)"

text \<open>
  What the monotonic clock keeps true of a widget at clock reading \<open>t\<close>: the timer was
  started no later than \<open>t\<close>, and the elapsed time is not negative.
\<close>

definition tracker_inv :: "real \<Rightarrow> tracker \<Rightarrow> bool" where
  "tracker_inv t s \<longleftrightarrow> timer_start s \<le> t \<and> 0 \<le> timer_diff s"

section \<open>The component's update cycle\<close>

text \<open>
  The reactive statement \<^verbatim>\<open>$: progress = ...\<close> stores its value in the variable
  \<^verbatim>\<open>progress\<close>.
\<close>

definition progress_block :: "tracker \<Rightarrow> tracker" where
  "progress_block s = s\<lparr>progress_var := progress (eta s) (timer_diff s)\<rparr>"

text \<open>
  A \<^verbatim>\<open>$:\<close> statement runs in an update only when a variable it reads has changed. The
  variables the reactive statements read, and the ones an assignment has changed
  between two states (an assignment of an equal value changes nothing).
\<close>

datatype var = Var_eta | Var_queue | Var_status | Var_timer_start | Var_timer_diff | Var_old_eta

definition invalidated :: "tracker \<Rightarrow> tracker \<Rightarrow> var list" where
  "invalidated s s' =
     (if eta s \<noteq> eta s' then [Var_eta] else []) @
     (if queue s \<noteq> queue s' then [Var_queue] else []) @
     (if status s \<noteq> status s' then [Var_status] else []) @
     (if timer_start s \<noteq> timer_start s' then [Var_timer_start] else []) @
     (if timer_diff s \<noteq> timer_diff s' then [Var_timer_diff] else []) @
     (if old_eta s \<noteq> old_eta s' then [Var_old_eta] else [])"

definition reads :: "var list \<Rightarrow> var list \<Rightarrow> bool" where
  "reads deps dirty \<longleftrightarrow> list_ex (\<lambda>v. v \<in> set dirty) deps"

text \<open>
  One update of the component with the variables \<open>dirty\<close> changed. The statements run
  in the order the compiler gives them: a statement that assigns a variable comes
  before the statements that read it, otherwise the order of the source. The eta
  block assigns \<^verbatim>\<open>eta\<close>, which \<^verbatim>\<open>progress\<close> reads, so it comes first; then
  \<^verbatim>\<open>progress\<close>; then the status block. What a statement changes is seen by the
  statements after it, not by those before it: \<^verbatim>\<open>start_timer\<close> and \<^verbatim>\<open>stop_timer\<close>
  write \<^verbatim>\<open>timer_diff\<close> after \<^verbatim>\<open>progress\<close> had its turn.
\<close>

definition update_cycle :: "real \<Rightarrow> var list \<Rightarrow> tracker \<Rightarrow> tracker" where
  "update_cycle now dirty s =
     (let s1 = (if reads [Var_eta, Var_old_eta, Var_queue, Var_timer_start] dirty
                then eta_block now s else s);
          dirty1 = dirty @ invalidated s s1;
          s2 = (if reads [Var_eta, Var_timer_diff] dirty1 then progress_block s1 else s1);
          s3 = (if reads [Var_status] dirty1 then status_block now s2 else s2)
      in s3)"

text \<open>Mounting the component runs every reactive statement once.\<close>

definition mount :: "real \<Rightarrow> tracker \<Rightarrow> tracker" where
  "mount now s =
     update_cycle now [Var_eta, Var_queue, Var_status, Var_timer_start, Var_timer_diff, Var_old_eta] s"

text \<open>
  The host notifies a status: the property is assigned, and the component is updated
  only if the value differs from the one it has.
\<close>

definition set_status :: "status \<Rightarrow> real \<Rightarrow> tracker \<Rightarrow> tracker" where
  "set_status st now s =
     (if st = status s then s else update_cycle now [Var_status] (s\<lparr>status := st\<rparr>))"

text \<open>
  An animation frame of the mounted component: the queued callbacks run, and what
  they changed is brought to the reactive statements in an update.
\<close>

definition frame :: "real \<Rightarrow> tracker \<Rightarrow> tracker" where
  "frame now s =
     (let s1 = animation_frame now s
      in if invalidated s s1 = [] then s1 else update_cycle now (invalidated s s1) s1)"

section \<open>Editor bridge (image editor component)\<close>

text \<open>
  \<^verbatim>\<open>value\<close> and the payload of an output message have the same shape:
  \<^verbatim>\<open>{ image: string | null; mask: string | null }\<close> (fields \<open>image_v\<close> and \<open>mask_v\<close>).
\<close>

record image_value =
  image_v :: "string option"
  mask_v :: "string option"

text \<open>
  A window message event: who sent it (\<open>origin\<close>, \<open>source\<close>) and its \<open>data\<close>, which
  may be absent, may lack a \<^verbatim>\<open>type\<close> and may lack a \<^verbatim>\<open>detail\<close>.
\<close>

record message_data =
  msg_type :: "string option"
  detail :: "image_value option"

record message_event =
  origin :: string
  source :: nat
  data :: "message_data option"

text \<open>
  The variable \<^verbatim>\<open>imageEditor\<close>: not bound yet, or the iframe element, whose
  \<^verbatim>\<open>contentWindow\<close> is there or null.
\<close>

datatype iframe = Unbound | Iframe bool

text \<open>
  A message posted to the iframe's window: its \<^verbatim>\<open>type\<close>, the name of the field that
  carries the image, the image, and the target origin.
\<close>

record post =
  post_type :: string
  post_field :: string
  post_image :: "string option"
  target_origin :: string

datatype js_error = TypeError

text \<open>
  The component's state: the variables \<^verbatim>\<open>imageEditor\<close>, \<^verbatim>\<open>imageEditorValue\<close> and
  \<^verbatim>\<open>value\<close> (here \<open>editor_value\<close>), the messages posted to the iframe and the events
  dispatched to the host, oldest first.
\<close>

record editor =
  imageEditor :: iframe
  imageEditorValue :: "string option"
  editor_value :: image_value
  posted :: "post list"
  dispatched :: "(string \<times> image_value) list"

text \<open>\<^verbatim>\<open>e.data?.type\<close>\<close>

definition data_type :: "message_event \<Rightarrow> string option" where
  "data_type e = (case data e of None \<Rightarrow> None | Some d \<Rightarrow> msg_type d)"

text \<open>
  \<^verbatim>\<open>compareValues\<close>: with the iframe bound and \<^verbatim>\<open>imageEditorValue !== val.image\<close>, post
  \<^verbatim>\<open>{ type: "image-editor-input", image: value.image }\<close> to the content window, if
  there is one.
\<close>

definition compareValues :: "image_value \<Rightarrow> editor \<Rightarrow> editor" where
  "compareValues v s =
     (case imageEditor s of
        Unbound \<Rightarrow> s
      | Iframe content_window \<Rightarrow>
          if imageEditorValue s \<noteq> image_v v
          then (if content_window
                then s\<lparr>posted := posted s @
                       [\<lparr>post_type = ''image-editor-input'', post_field = ''image'',
                         post_image = image_v (editor_value s), target_origin = ''*''\<rparr>]\<rparr>
                else s)
          else s)"

text \<open>
  \<^verbatim>\<open>processMessages\<close>, first statement: on \<^verbatim>\<open>'loaded'\<close> post
  \<^verbatim>\<open>{ type: "image-editor-input", detail: value.image }\<close>. Reading
  \<^verbatim>\<open>imageEditor.contentWindow\<close> of an unbound variable throws.
\<close>

definition on_loaded :: "message_event \<Rightarrow> editor \<Rightarrow> js_error + editor" where
  "on_loaded e s =
     (if data_type e = Some ''loaded''
      then (case imageEditor s of
              Unbound \<Rightarrow> Inl TypeError
            | Iframe content_window \<Rightarrow>
                Inr (if content_window
                     then s\<lparr>posted := posted s @
                            [\<lparr>post_type = ''image-editor-input'', post_field = ''detail'',
                              post_image = image_v (editor_value s), target_origin = ''*''\<rparr>]\<rparr>
                     else s))
      else Inr s)"

text \<open>
  \<^verbatim>\<open>processMessages\<close>, second statement: on \<^verbatim>\<open>'image-editor-output'\<close> dispatch
  \<^verbatim>\<open>change\<close>, then assign \<^verbatim>\<open>imageEditorValue\<close>, \<^verbatim>\<open>value.mask\<close> and \<^verbatim>\<open>value.image\<close>.
  Reading \<^verbatim>\<open>e.data.detail.image\<close> without a \<^verbatim>\<open>detail\<close> throws before anything is done.
\<close>

definition on_output :: "message_event \<Rightarrow> editor \<Rightarrow> js_error + editor" where
  "on_output e s =
     (if data_type e = Some ''image-editor-output''
      then (case data e of
              None \<Rightarrow> Inr s
            | Some d \<Rightarrow>
                (case detail d of
                   None \<Rightarrow> Inl TypeError
                 | Some p \<Rightarrow>
                     Inr (s\<lparr>dispatched := dispatched s @ [(''change'', \<lparr>image_v = image_v p, mask_v = mask_v p\<rparr>)],
                           imageEditorValue := image_v p,
                           editor_value := (editor_value s)\<lparr>mask_v := mask_v p, image_v := image_v p\<rparr>\<rparr>)))
      else Inr s)"

definition processMessages :: "message_event \<Rightarrow> editor \<Rightarrow> js_error + editor" where
  "processMessages e s =
     (case on_loaded e s of
        Inl err \<Rightarrow> Inl err
      | Inr s1 \<Rightarrow> on_output e s1)"

section \<open>Properties of the scroll coordinator\<close>

text \<open>
  C8, as the code has it. A call of \<^verbatim>\<open>scroll_into_view\<close> made while the display
  context is "website", or while the context is not "app" and the enable argument,
  after an argument that is left out or undefined has taken the default true, is
  not true (that is, it was passed as false or null), changes nothing: the pending
  list, the scheduled flag, the page scroll position and every other part of the
  page state are as before.
\<close>

theorem scroll_guard_noop:
  assumes "gradio_mode = Some ''website'' \<or>
           (gradio_mode \<noteq> Some ''app'' \<and> (enable = Null \<or> enable = Flag False))"
  shows "scroll_into_view gradio_mode el enable s = s"
  using assms by (auto simp: scroll_into_view_def rejected_def)

theorem scroll_guard_noop_witness:
  "scroll_into_view (Some ''website'') 3 (Flag True)
      \<lparr>items = [1], called = True, scrollY = 40, awaiting_tick = 1, raf_queue = 0, scroll_calls = []\<rparr>
    = \<lparr>items = [1], called = True, scrollY = 40, awaiting_tick = 1, raf_queue = 0, scroll_calls = []\<rparr>
   \<and> scroll_into_view None 3 Null
      \<lparr>items = [], called = False, scrollY = 0, awaiting_tick = 0, raf_queue = 0, scroll_calls = []\<rparr>
    = \<lparr>items = [], called = False, scrollY = 0, awaiting_tick = 0, raf_queue = 0, scroll_calls = []\<rparr>
   \<and> scroll_into_view (Some ''embed'') 3 (Flag False)
      \<lparr>items = [], called = False, scrollY = 0, awaiting_tick = 0, raf_queue = 0, scroll_calls = []\<rparr>
    = \<lparr>items = [], called = False, scrollY = 0, awaiting_tick = 0, raf_queue = 0, scroll_calls = []\<rparr>"
  using scroll_guard_noop [of "Some ''website''" "Flag True" 3
      "\<lparr>items = [1], called = True, scrollY = 40, awaiting_tick = 1, raf_queue = 0, scroll_calls = []\<rparr>"]
    scroll_guard_noop [of None Null 3
      "\<lparr>items = [], called = False, scrollY = 0, awaiting_tick = 0, raf_queue = 0, scroll_calls = []\<rparr>"]
    scroll_guard_noop [of "Some ''embed''" "Flag False" 3
      "\<lparr>items = [], called = False, scrollY = 0, awaiting_tick = 0, raf_queue = 0, scroll_calls = []\<rparr>"]
  by simp

text \<open>
  C8, as stated, fails for a flag that is not given: outside the "app" context a
  call with the enable argument left out or undefined is accepted, because the
  parameter defaults to true. The element is pushed, the flag \<^verbatim>\<open>called\<close> is set and a
  flush is scheduled, which then scrolls the page.
\<close>

theorem undefined_flag_is_accepted:
  "scroll_into_view None 3 Undefined
      \<lparr>items = [], called = False, scrollY = 0, awaiting_tick = 0, raf_queue = 0, scroll_calls = []\<rparr>
    = \<lparr>items = [3], called = True, scrollY = 0, awaiting_tick = 1, raf_queue = 0, scroll_calls = []\<rparr> \<and>
   page_frame (\<lambda>e. 100)
     (tick_resolved (scroll_into_view None 3 Undefined
        \<lparr>items = [], called = False, scrollY = 0, awaiting_tick = 0, raf_queue = 0, scroll_calls = []\<rparr>))
    = \<lparr>items = [], called = False, scrollY = 0, awaiting_tick = 0, raf_queue = 0, scroll_calls = [80]\<rparr>"
  by (simp add: scroll_into_view_def rejected_def tick_resolved_def page_frame_def flush_def
        flush_min_def Let_def)

subsection \<open>The flush loop\<close>

text \<open>
  One more element: the test \<^verbatim>\<open>i === 0 || pos <= min[0]\<close> keeps \<^verbatim>\<open>min\<close> at the least
  position and, among equal positions, at the one seen last.
\<close>

lemma latest_min_snoc:
  assumes "pre = [] \<or> latest_min (map f pre) m"
  shows "latest_min (map f (pre @ [e]))
           (if length pre = 0 \<or> f e \<le> fst m then (f e, length pre) else m)"
  using assms
  by (auto simp: latest_min_def is_min_def nth_append less_Suc_eq)

lemma flush_loop_latest:
  assumes "pre = [] \<or> latest_min (map (\<lambda>e. top_of e + sy) pre) m" and "pre @ es \<noteq> []"
  shows "latest_min (map (\<lambda>e. top_of e + sy) (pre @ es)) (flush_loop top_of sy es (length pre) m)"
  using assms
proof (induction es arbitrary: pre m)
  case Nil
  then show ?case by simp
next
  case (Cons e es)
  let ?f = "\<lambda>e. top_of e + sy"
  let ?m = "if length pre = 0 \<or> ?f e \<le> fst m then (?f e, length pre) else m"
  have step: "latest_min (map ?f (pre @ [e])) ?m"
    using Cons.prems(1) by (rule latest_min_snoc)
  have "latest_min (map ?f ((pre @ [e]) @ es)) (flush_loop top_of sy es (length (pre @ [e])) ?m)"
  proof (rule Cons.IH)
    show "pre @ [e] = [] \<or> latest_min (map ?f (pre @ [e])) ?m"
      using step by (rule disjI2)
    show "(pre @ [e]) @ es \<noteq> []" by simp
  qed
  then show ?case by simp
qed

lemma flush_min_latest:
  "els \<noteq> [] \<Longrightarrow> latest_min (map (\<lambda>e. top_of e + sy) els) (flush_min top_of sy els)"
  using flush_loop_latest [of "[]" top_of sy "(0, 0)" els] by (simp add: flush_min_def)

subsection \<open>Batching\<close>

lemma update_pass_accepted:
  assumes "\<forall>r \<in> set reqs. \<not> rejected gradio_mode (snd r)"
  shows "update_pass gradio_mode reqs s =
           (if reqs = [] then s
            else s\<lparr>items := items s @ map fst reqs, called := True,
                   awaiting_tick := awaiting_tick s + (if called s then 0 else 1)\<rparr>)"
  using assms
proof (induction reqs arbitrary: s)
  case Nil
  then show ?case by simp
next
  case (Cons r reqs)
  obtain el enable where r: "r = (el, enable)" by (cases r)
  from Cons.prems have acc: "\<not> rejected gradio_mode enable"
    and rest: "\<forall>r \<in> set reqs. \<not> rejected gradio_mode (snd r)" by (simp_all add: r)
  show ?case
    by (simp add: r Cons.IH [OF rest] scroll_into_view_def acc Let_def)
qed

text \<open>
  C1, as the code has it. Take a coherent page and one update pass of \<open>N \<ge> 1\<close>
  requests, none rejected by the guard; let the tick resolve and the next animation
  frame run. Then exactly one flush has run: exactly one \<^verbatim>\<open>window.scrollTo\<close> call was
  added, the list is empty again, the flag is clear and nothing is scheduled. The call
  asks for 20 pixels above the least \<^verbatim>\<open>top + window.scrollY\<close> among all pending
  elements, measured when the flush runs. Among elements at that least position the
  loop records the one registered last (the highest index); the index is not used
  for the scroll, so the target is the same whichever of them is recorded.
\<close>

theorem one_flush_per_batch:
  assumes "coherent s" and "reqs \<noteq> []" and "\<forall>r \<in> set reqs. \<not> rejected gradio_mode (snd r)"
  shows "page_frame top_of (tick_resolved (update_pass gradio_mode reqs s)) =
           s\<lparr>items := [], called := False, awaiting_tick := 0, raf_queue := 0,
             scroll_calls := scroll_calls s @
               [fst (flush_min top_of (scrollY s) (items s @ map fst reqs)) - 20]\<rparr> \<and>
         latest_min (map (\<lambda>e. top_of e + scrollY s) (items s @ map fst reqs))
           (flush_min top_of (scrollY s) (items s @ map fst reqs))"
proof -
  have one: "raf_queue s + (awaiting_tick s + (if called s then 0 else 1)) = Suc 0"
    using assms(1) by (simp add: coherent_def split: if_splits)
  have "page_frame top_of (tick_resolved (update_pass gradio_mode reqs s)) =
           s\<lparr>items := [], called := False, awaiting_tick := 0, raf_queue := 0,
             scroll_calls := scroll_calls s @
               [fst (flush_min top_of (scrollY s) (items s @ map fst reqs)) - 20]\<rparr>"
    using assms(2)
    by (simp add: update_pass_accepted [OF assms(3)] tick_resolved_def page_frame_def one flush_def)
  moreover have "items s @ map fst reqs \<noteq> []" using assms(2) by simp
  ultimately show ?thesis using flush_min_latest by blast
qed

theorem one_flush_per_batch_witness:
  "coherent \<lparr>items = [], called = False, scrollY = 50, awaiting_tick = 0, raf_queue = 0, scroll_calls = []\<rparr> \<and>
   page_frame (\<lambda>e. if e = 1 then 300 else 100)
     (tick_resolved (update_pass None [(1, Flag True), (2, Undefined), (3, Flag True)]
        \<lparr>items = [], called = False, scrollY = 50, awaiting_tick = 0, raf_queue = 0, scroll_calls = []\<rparr>))
    = \<lparr>items = [], called = False, scrollY = 50, awaiting_tick = 0, raf_queue = 0, scroll_calls = [130]\<rparr> \<and>
   flush_min (\<lambda>e. if e = 1 then 300 else 100) 50 [1, 2, 3] = (150, 2)"
  using one_flush_per_batch [of
      "\<lparr>items = [], called = False, scrollY = 50, awaiting_tick = 0, raf_queue = 0, scroll_calls = []\<rparr>"
      "[(1, Flag True), (2, Undefined), (3, Flag True)]" None "\<lambda>e. if e = 1 then 300 else 100"]
  by (simp add: coherent_def rejected_def flush_min_def)

text \<open>
  C1, as stated, fails on the tie: two accepted requests whose elements are both at
  position 100 leave index 1, the later one, in \<^verbatim>\<open>min\<close>, not index 0.
\<close>

theorem tie_goes_to_latest:
  "items (update_pass (Some ''app'') [(1, Flag True), (2, Flag True)]
      \<lparr>items = [], called = False, scrollY = 0, awaiting_tick = 0, raf_queue = 0, scroll_calls = []\<rparr>)
     = [1, 2] \<and>
   flush_min (\<lambda>e. 100) 0 [1, 2] = (100, 1) \<and>
   \<not> earliest_min (map (\<lambda>e. 100 + 0) [1, 2]) (flush_min (\<lambda>e. 100) 0 [1, 2])"
  by (auto simp: scroll_into_view_def rejected_def flush_min_def earliest_min_def is_min_def Let_def)

section \<open>Properties of the timer\<close>

subsection \<open>The frame callbacks\<close>

lemma run_callback_stopped:
  "\<not> timer_flag s \<Longrightarrow>
     \<not> timer_flag (run_callback now s) \<and> raf_pending (run_callback now s) = raf_pending s"
  by (simp add: run_callback_def Let_def)

lemma run_callback_fields:
  "timer_start (run_callback now s) = timer_start s"
  "timer_diff (run_callback now s) = (now - timer_start s) / 1000"
  "old_eta (run_callback now s) = old_eta s"
  by (simp_all add: run_callback_def run_def Let_def)

lemma callbacks_fields:
  "timer_start ((run_callback now ^^ n) s) = timer_start s"
  "old_eta ((run_callback now ^^ n) s) = old_eta s"
  by (induction n) (simp_all add: run_callback_fields)

lemma stopped_callbacks:
  "\<not> timer_flag s \<Longrightarrow>
     \<not> timer_flag ((run_callback now ^^ n) s) \<and>
     raf_pending ((run_callback now ^^ n) s) = raf_pending s"
  by (induction n) (simp_all add: run_callback_stopped)

lemma callbacks_measure:
  "0 < n \<Longrightarrow> timer_diff ((run_callback now ^^ n) s) = (now - timer_start s) / 1000"
  by (cases n) (simp_all add: run_callback_fields callbacks_fields)

subsection \<open>The eta\<close>

text \<open>
  C2. One run of the reactive eta block. With queueing on, a supplied eta \<open>e\<close> becomes
  \<open>e\<close> plus the seconds elapsed since the timer started, and that value is stored as
  the last-known eta and formatted for display. With a null eta, the last-known eta
  is used instead and stays stored. (The witness: the timer starts at 1000 ms,
  eta = 5 arrives at 3000 ms and shows as 7; a null eta at 4500 ms still shows 7.)
\<close>

theorem eta_projection:
  "(queue s \<and> eta s = Some e \<longrightarrow>
      eta (eta_block now s) = Some ((now - timer_start s) / 1000 + e) \<and>
      old_eta (eta_block now s) = Some ((now - timer_start s) / 1000 + e) \<and>
      formatted_eta (eta_block now s) = Some (toFixed1 ((now - timer_start s) / 1000 + e))) \<and>
   (eta s = None \<longrightarrow>
      eta (eta_block now s) = old_eta s \<and>
      old_eta (eta_block now s) = old_eta s)"
  by (auto simp: eta_block_def Let_def split: option.splits)

theorem eta_projection_witness:
  "eta (run_ops [(1000, Status_block), (3000, Set_eta (Some 5)), (3000, Eta_block)]
          (init_tracker Pending None True)) = Some 7 \<and>
   old_eta (run_ops [(1000, Status_block), (3000, Set_eta (Some 5)), (3000, Eta_block)]
          (init_tracker Pending None True)) = Some 7 \<and>
   formatted_eta (run_ops [(1000, Status_block), (3000, Set_eta (Some 5)), (3000, Eta_block)]
          (init_tracker Pending None True)) = Some ''7.0'' \<and>
   eta (run_ops [(1000, Status_block), (3000, Set_eta (Some 5)), (3000, Eta_block),
                 (4500, Set_eta None), (4500, Eta_block)]
          (init_tracker Pending None True)) = Some 7 \<and>
   formatted_eta (run_ops [(1000, Status_block), (3000, Set_eta (Some 5)), (3000, Eta_block),
                 (4500, Set_eta None), (4500, Eta_block)]
          (init_tracker Pending None True)) = Some ''7.0''"
  using eta_projection [of "run_ops [(1000, Status_block), (3000, Set_eta (Some 5))] (init_tracker Pending None True)" 5 3000]
    eta_projection [of "run_ops [(1000, Status_block), (3000, Set_eta (Some 5)), (3000, Eta_block),
                 (4500, Set_eta None)] (init_tracker Pending None True)" 0 4500]
  by (simp add: init_tracker_def status_block_def start_timer_def run_def
        eta_block_def toFixed1_def digit_char_def Let_def)

subsection \<open>The last-known eta\<close>

lemma exec_op_old: "old_eta s \<noteq> None \<Longrightarrow> old_eta (exec_op now op s) \<noteq> None"
  by (cases op) (auto simp: status_block_def start_timer_def stop_timer_def run_def eta_block_def
       animation_frame_def callbacks_fields onDestroy_def Let_def split: option.splits)

lemma run_ops_old: "old_eta s \<noteq> None \<Longrightarrow> old_eta (run_ops ops s) \<noteq> None"
proof (induction ops arbitrary: s)
  case Nil
  then show ?case by simp
next
  case (Cons a ops)
  obtain now op where a: "a = (now, op)" by (cases a)
  have "old_eta (exec_op now op s) \<noteq> None"
    using Cons.prems by (rule exec_op_old)
  then have "old_eta (run_ops ops (exec_op now op s)) \<noteq> None"
    by (rule Cons.IH)
  then show ?case by (simp add: a)
qed

lemma eta_block_observed: "eta s \<noteq> None \<Longrightarrow> old_eta (eta_block now s) \<noteq> None"
  by (auto simp: eta_block_def Let_def split: option.splits)

text \<open>
  C7. Over every sequence of steps (properties set, blocks run, frames, teardown,
  at any clock readings): a last-known eta that is not null stays not null, and once
  the eta block has seen an eta that is not null the last-known eta is not null from
  then on. The code never assigns null to \<^verbatim>\<open>old_eta\<close>, so this also holds across a stop
  and a restart with no new value; the exception the claim allows is never used.
\<close>

theorem old_eta_never_regresses:
  "(old_eta s \<noteq> None \<longrightarrow> old_eta (run_ops ops s) \<noteq> None) \<and>
   (eta s \<noteq> None \<longrightarrow> old_eta (run_ops ops (eta_block now s)) \<noteq> None)"
  using run_ops_old eta_block_observed by blast

theorem old_eta_never_regresses_witness:
  "eta (run_ops [(1000, Status_block), (3000, Set_eta (Some 5))]
          (init_tracker Pending None True)) = Some 5 \<and>
   old_eta (run_ops [(5000, Set_status Complete), (5000, Status_block), (5016, Frame),
                     (9000, Set_eta None), (9000, Set_status Pending), (9000, Status_block),
                     (9000, Eta_block), (9016, Frame)]
             (eta_block 3000
               (run_ops [(1000, Status_block), (3000, Set_eta (Some 5))]
                  (init_tracker Pending None True)))) = Some 7"
  using old_eta_never_regresses [of
      "run_ops [(1000, Status_block), (3000, Set_eta (Some 5))] (init_tracker Pending None True)"
      "[(5000, Set_status Complete), (5000, Status_block), (5016, Frame),
        (9000, Set_eta None), (9000, Set_status Pending), (9000, Status_block),
        (9000, Eta_block), (9016, Frame)]" 3000]
  by (simp add: init_tracker_def status_block_def start_timer_def stop_timer_def run_def
        animation_frame_def run_callback_def eta_block_def Let_def)

subsection \<open>The progress fraction\<close>

lemma run_callback_inv: "tracker_inv t s \<Longrightarrow> t \<le> now \<Longrightarrow> tracker_inv now (run_callback now s)"
  by (simp add: tracker_inv_def run_callback_def run_def Let_def)

lemma callbacks_inv: "tracker_inv now s \<Longrightarrow> tracker_inv now ((run_callback now ^^ n) s)"
  by (induction n) (simp_all add: run_callback_inv)

lemma exec_op_inv: "tracker_inv t s \<Longrightarrow> t \<le> now \<Longrightarrow> tracker_inv now (exec_op now op s)"
proof (cases op)
  case Frame
  assume "tracker_inv t s" "t \<le> now"
  then have "tracker_inv now (s\<lparr>raf_pending := 0\<rparr>)" by (simp add: tracker_inv_def)
  then show ?thesis using Frame by (simp add: animation_frame_def callbacks_inv)
qed (auto simp: tracker_inv_def status_block_def start_timer_def stop_timer_def run_def eta_block_def
       onDestroy_def Let_def split: option.splits)

lemma run_ops_inv: "tracker_inv t s \<Longrightarrow> monotonic t ops \<Longrightarrow> 0 \<le> timer_diff (run_ops ops s)"
proof (induction ops arbitrary: s t)
  case Nil
  then show ?case by (simp add: tracker_inv_def)
next
  case (Cons a ops)
  obtain now op where a: "a = (now, op)" by (cases a)
  from Cons.prems have le: "t \<le> now" and mono: "monotonic now ops" by (simp_all add: a)
  have "tracker_inv now (exec_op now op s)"
    using Cons.prems(1) le by (rule exec_op_inv)
  then have "0 \<le> timer_diff (run_ops ops (exec_op now op s))"
    using mono by (rule Cons.IH)
  then show ?case by (simp add: a)
qed

lemma progress_nonneg: "0 \<le> d \<Longrightarrow> progress e d = spec_progress e d"
  by (cases e) (auto simp: progress_def spec_progress_def min_def max_def)

text \<open>
  What one run of the \<^verbatim>\<open>progress\<close> statement computes: in every state a widget
  reaches under a monotonic clock that starts at or after 0, the expression gives
  elapsed / eta clamped to \<open>[0, 1]\<close> when eta is positive and elapsed is not zero,
  and no value when eta is null or not positive or elapsed is zero.
\<close>

lemma progress_expression:
  assumes "monotonic 0 ops"
  shows "progress e (timer_diff (run_ops ops (init_tracker st e0 q)))
       = spec_progress e (timer_diff (run_ops ops (init_tracker st e0 q)))"
proof -
  have "tracker_inv 0 (init_tracker st e0 q)"
    by (simp add: tracker_inv_def init_tracker_def)
  then have "0 \<le> timer_diff (run_ops ops (init_tracker st e0 q))"
    using assms by (rule run_ops_inv)
  then show ?thesis by (rule progress_nonneg)
qed

text \<open>
  C3 at a concrete run. The widget is mounted pending with eta = 10 at 0 ms; the
  frame at 5000 ms gives elapsed = 5 and the stored fraction 0.5. The status becomes
  complete at 6000 ms and pending again at 6500 ms. In both updates the \<^verbatim>\<open>progress\<close>
  statement has its turn before the status block, and \<^verbatim>\<open>stop_timer\<close> and
  \<^verbatim>\<open>start_timer\<close> set elapsed to 0 only after it: elapsed is 0, eta is 10, the status
  is pending, and the stored fraction is still 0.5 where the expression itself gives
  no value.
\<close>

theorem stale_progress_after_restart:
  "progress_var (frame 5000 (mount 0 (init_tracker Pending (Some 10) False))) = Some (1 / 2) \<and>
   timer_diff (set_status Complete 6000 (frame 5000 (mount 0 (init_tracker Pending (Some 10) False)))) = 0 \<and>
   progress_var (set_status Complete 6000 (frame 5000 (mount 0 (init_tracker Pending (Some 10) False))))
     = Some (1 / 2) \<and>
   status (set_status Pending 6500 (set_status Complete 6000
            (frame 5000 (mount 0 (init_tracker Pending (Some 10) False))))) = Pending \<and>
   eta (set_status Pending 6500 (set_status Complete 6000
            (frame 5000 (mount 0 (init_tracker Pending (Some 10) False))))) = Some 10 \<and>
   timer_diff (set_status Pending 6500 (set_status Complete 6000
            (frame 5000 (mount 0 (init_tracker Pending (Some 10) False))))) = 0 \<and>
   progress_var (set_status Pending 6500 (set_status Complete 6000
            (frame 5000 (mount 0 (init_tracker Pending (Some 10) False))))) = Some (1 / 2) \<and>
   spec_progress (Some 10) 0 = None"
  by (simp add: mount_def frame_def set_status_def update_cycle_def reads_def invalidated_def
        init_tracker_def eta_block_def progress_block_def progress_def spec_progress_def
        status_block_def start_timer_def stop_timer_def run_def animation_frame_def
        run_callback_def toFixed1_def digit_char_def Let_def)

subsection \<open>Stopping\<close>

text \<open>
  What the status block does when it runs with a status other than pending: elapsed
  is set to 0, the running flag is cleared and the last-known eta is as before. At
  the next animation frame the callbacks still queued run without registering a new
  one, so none is left, and the last-known eta is still as before.
\<close>

lemma stop_timer_effect:
  assumes "status s \<noteq> Pending"
  shows "timer_diff (status_block now s) = 0 \<and>
         \<not> timer_flag (status_block now s) \<and>
         old_eta (status_block now s) = old_eta s \<and>
         raf_pending (animation_frame now' (status_block now s)) = 0 \<and>
         \<not> timer_flag (animation_frame now' (status_block now s)) \<and>
         old_eta (animation_frame now' (status_block now s)) = old_eta s"
proof -
  let ?s = "status_block now s"
  have sb: "?s = stop_timer s" using assms by (simp add: status_block_def)
  have a: "timer_diff ?s = 0" "\<not> timer_flag ?s" "old_eta ?s = old_eta s"
    by (simp_all add: sb stop_timer_def Let_def)
  have "\<not> timer_flag (?s\<lparr>raf_pending := 0\<rparr>)" using a(2) by simp
  from stopped_callbacks [OF this, where now = now' and n = "raf_pending ?s"]
  have b: "raf_pending (animation_frame now' ?s) = 0"
    "\<not> timer_flag (animation_frame now' ?s)"
    "old_eta (animation_frame now' ?s) = old_eta s"
    by (simp_all add: animation_frame_def callbacks_fields a(3))
  from a b show ?thesis by simp
qed


subsection \<open>Starting again\<close>

lemma run_callback_same:
  "eta (run_callback now s) = eta s"
  "queue (run_callback now s) = queue s"
  "status (run_callback now s) = status s"
  "timer_flag (run_callback now s) = timer_flag s"
  by (simp_all add: run_callback_def run_def Let_def)

lemma callbacks_same:
  "eta ((run_callback now ^^ n) s) = eta s"
  "queue ((run_callback now ^^ n) s) = queue s"
  "status ((run_callback now ^^ n) s) = status s"
  "timer_flag ((run_callback now ^^ n) s) = timer_flag s"
  by (induction n) (simp_all add: run_callback_same)

lemma running_callbacks:
  "timer_flag s \<Longrightarrow> raf_pending ((run_callback now ^^ n) s) = raf_pending s + n"
  by (induction n) (simp_all add: run_callback_def run_def Let_def callbacks_same)

lemma animation_frame_same:
  "eta (animation_frame now s) = eta s"
  "queue (animation_frame now s) = queue s"
  "status (animation_frame now s) = status s"
  "timer_flag (animation_frame now s) = timer_flag s"
  "timer_start (animation_frame now s) = timer_start s"
  "old_eta (animation_frame now s) = old_eta s"
  by (simp_all add: animation_frame_def callbacks_same callbacks_fields)

lemma animation_frame_running:
  "timer_flag s \<Longrightarrow> raf_pending (animation_frame now s) = raf_pending s"
  by (simp add: animation_frame_def running_callbacks)

lemma animation_frame_measures:
  "0 < raf_pending s \<Longrightarrow> timer_diff (animation_frame now s) = (now - timer_start s) / 1000"
  by (simp add: animation_frame_def callbacks_measure)

lemma update_status_only: "update_cycle now [Var_status] s = status_block now s"
  by (simp add: update_cycle_def reads_def invalidated_def Let_def)

lemma frame_cases:
  "frame now s = animation_frame now s \<or> frame now s = progress_block (animation_frame now s)"
  by (simp add: frame_def Let_def update_cycle_def reads_def invalidated_def animation_frame_same)

lemma frame_same:
  "status (frame now s) = status s"
  "timer_flag (frame now s) = timer_flag s"
  "timer_start (frame now s) = timer_start s"
  "timer_diff (frame now s) = timer_diff (animation_frame now s)"
  "raf_pending (frame now s) = raf_pending (animation_frame now s)"
  using frame_cases [of now s] by (auto simp: progress_block_def animation_frame_same)

lemma set_status_same: "status s = st \<Longrightarrow> set_status st now s = s"
  by (simp add: set_status_def)

lemma first_pending:
  assumes "status s \<noteq> Pending"
  shows "set_status Pending now s = start_timer now (s\<lparr>status := Pending\<rparr>)"
  using assms by (simp add: set_status_def update_status_only status_block_def)

text \<open>
  C5. A first pending notification starts the timer. A second pending notification
  with no other status in between, right away or after a frame, leaves the widget
  as it is: the status block does not run again, since the status it reads has not
  changed, so \<^verbatim>\<open>start_timer\<close> is not called a second time. Elapsed at every later
  frame is the time since the first start.
\<close>

theorem second_pending_keeps_timer:
  assumes "status s \<noteq> Pending"
  shows "timer_start (set_status Pending t1 s) = t1 \<and>
         timer_diff (set_status Pending t1 s) = 0 \<and>
         set_status Pending t2 (set_status Pending t1 s) = set_status Pending t1 s \<and>
         set_status Pending t2 (frame t (set_status Pending t1 s)) = frame t (set_status Pending t1 s) \<and>
         timer_diff (frame t (set_status Pending t1 s)) = (t - t1) / 1000 \<and>
         timer_diff (frame t3 (set_status Pending t2 (frame t (set_status Pending t1 s)))) = (t3 - t1) / 1000"
proof -
  let ?s1 = "set_status Pending t1 s"
  have s1: "status ?s1 = Pending" "timer_start ?s1 = t1" "timer_diff ?s1 = 0" "timer_flag ?s1"
    "0 < raf_pending ?s1"
    by (simp_all add: first_pending [OF assms] start_timer_def run_def)
  let ?s2 = "frame t ?s1"
  have s2: "status ?s2 = Pending" "timer_start ?s2 = t1" "0 < raf_pending ?s2"
    "timer_diff ?s2 = (t - t1) / 1000"
    using s1 by (simp_all add: frame_same animation_frame_running animation_frame_measures)
  have a: "set_status Pending t2 ?s1 = ?s1" using s1(1) by (rule set_status_same)
  have b: "set_status Pending t2 ?s2 = ?s2" using s2(1) by (rule set_status_same)
  have "timer_diff (frame t3 ?s2) = (t3 - t1) / 1000"
    using s2 by (simp add: frame_same animation_frame_measures)
  with s1 s2 a b show ?thesis by simp
qed

theorem second_pending_keeps_timer_witness:
  "status (mount 0 (init_tracker Complete None False)) \<noteq> Pending \<and>
   timer_diff (frame 2000 (set_status Pending 1000 (mount 0 (init_tracker Complete None False)))) = 1 \<and>
   set_status Pending 3000 (frame 2000 (set_status Pending 1000 (mount 0 (init_tracker Complete None False))))
     = frame 2000 (set_status Pending 1000 (mount 0 (init_tracker Complete None False))) \<and>
   timer_diff (frame 4000 (set_status Pending 3000
      (frame 2000 (set_status Pending 1000 (mount 0 (init_tracker Complete None False)))))) = 3"
  using second_pending_keeps_timer [of "mount 0 (init_tracker Complete None False)" 1000 3000 2000 4000]
  by (simp add: mount_def frame_def set_status_def update_cycle_def reads_def invalidated_def
        init_tracker_def eta_block_def progress_block_def progress_def
        status_block_def start_timer_def stop_timer_def run_def animation_frame_def
        run_callback_def Let_def)

subsection \<open>Teardown\<close>

text \<open>
  C6 at a concrete run. The timer starts at 0 ms and the widget is torn down at
  500 ms while the timer runs: the hook clears the flag and sets elapsed to 0, and the
  callback registered by \<^verbatim>\<open>run\<close> is still queued. At the frame at 1000 ms that
  callback runs and writes elapsed = 1 second; only then is no callback left.
\<close>

theorem callback_writes_after_teardown:
  "timer_flag (run_ops [(0, Status_block)] (init_tracker Pending None False)) \<and>
   timer_diff (run_ops [(0, Status_block), (500, Destroy)] (init_tracker Pending None False)) = 0 \<and>
   raf_pending (run_ops [(0, Status_block), (500, Destroy)] (init_tracker Pending None False)) = 1 \<and>
   timer_diff (run_ops [(0, Status_block), (500, Destroy), (1000, Frame)]
                 (init_tracker Pending None False)) = 1 \<and>
   raf_pending (run_ops [(0, Status_block), (500, Destroy), (1000, Frame)]
                 (init_tracker Pending None False)) = 0"
  by (simp add: init_tracker_def status_block_def start_timer_def stop_timer_def onDestroy_def run_def
        animation_frame_def run_callback_def Let_def)

section \<open>Properties of the editor bridge\<close>

lemma sender_ignored:
  "on_loaded (e\<lparr>origin := org, source := w\<rparr>) = on_loaded e"
  "on_output (e\<lparr>origin := org, source := w\<rparr>) = on_output e"
  by (rule ext, simp add: on_loaded_def on_output_def data_type_def)+

lemma processMessages_sender:
  "processMessages (e\<lparr>origin := org, source := w\<rparr>) s = processMessages e s"
  unfolding processMessages_def sender_ignored by (rule refl)

text \<open>
  C9, as the code has it. \<^verbatim>\<open>processMessages\<close> never looks at the sender: replacing the origin and the source
  window of an event by any others gives the same result. So, whoever sent it, a
  message of type \<^verbatim>\<open>'image-editor-output'\<close> that carries a payload makes the widget
  dispatch \<^verbatim>\<open>change\<close> with the payload and adopt its image and mask as the new value;
  and a message of type \<^verbatim>\<open>'loaded'\<close>, with the iframe bound and its content window
  there, posts the current image to the iframe, for any target origin.
\<close>

theorem processMessages_unvalidated:
  "processMessages (e\<lparr>origin := org, source := w\<rparr>) s = processMessages e s \<and>
   (data e = Some d \<and> msg_type d = Some ''image-editor-output'' \<and> detail d = Some p \<longrightarrow>
      processMessages e s =
        Inr (s\<lparr>dispatched := dispatched s @ [(''change'', p)],
               imageEditorValue := image_v p,
               editor_value := p\<rparr>)) \<and>
   (data e = Some d \<and> msg_type d = Some ''loaded'' \<and> imageEditor s = Iframe True \<longrightarrow>
      processMessages e s =
        Inr (s\<lparr>posted := posted s @
               [\<lparr>post_type = ''image-editor-input'', post_field = ''detail'',
                 post_image = image_v (editor_value s), target_origin = ''*''\<rparr>]\<rparr>))"
  by (simp add: processMessages_sender)
    (simp add: processMessages_def on_loaded_def on_output_def data_type_def)

theorem processMessages_unvalidated_witness:
  "processMessages
     \<lparr>origin = ''https://evil.example'', source = 7,
       data = Some \<lparr>msg_type = Some ''image-editor-output'',
                    detail = Some \<lparr>image_v = Some ''B'', mask_v = Some ''M''\<rparr>\<rparr>\<rparr>
     \<lparr>imageEditor = Iframe True, imageEditorValue = None,
       editor_value = \<lparr>image_v = Some ''A'', mask_v = None\<rparr>, posted = [], dispatched = []\<rparr>
   = Inr \<lparr>imageEditor = Iframe True, imageEditorValue = Some ''B'',
          editor_value = \<lparr>image_v = Some ''B'', mask_v = Some ''M''\<rparr>, posted = [],
          dispatched = [(''change'', \<lparr>image_v = Some ''B'', mask_v = Some ''M''\<rparr>)]\<rparr> \<and>
   processMessages
     \<lparr>origin = ''https://evil.example'', source = 7,
       data = Some \<lparr>msg_type = Some ''loaded'', detail = None\<rparr>\<rparr>
     \<lparr>imageEditor = Iframe True, imageEditorValue = None,
       editor_value = \<lparr>image_v = Some ''A'', mask_v = None\<rparr>, posted = [], dispatched = []\<rparr>
   = Inr \<lparr>imageEditor = Iframe True, imageEditorValue = None,
          editor_value = \<lparr>image_v = Some ''A'', mask_v = None\<rparr>,
          posted = [\<lparr>post_type = ''image-editor-input'', post_field = ''detail'',
                     post_image = Some ''A'', target_origin = ''*''\<rparr>],
          dispatched = []\<rparr>"
  using processMessages_unvalidated [where e =
      "\<lparr>origin = ''https://evil.example'', source = 7,
       data = Some \<lparr>msg_type = Some ''image-editor-output'',
                    detail = Some \<lparr>image_v = Some ''B'', mask_v = Some ''M''\<rparr>\<rparr>\<rparr>"
      and org = "''https://evil.example''" and w = 7 and s =
      "\<lparr>imageEditor = Iframe True, imageEditorValue = None,
       editor_value = \<lparr>image_v = Some ''A'', mask_v = None\<rparr>, posted = [], dispatched = []\<rparr>" and d =
      "\<lparr>msg_type = Some ''image-editor-output'',
                    detail = Some \<lparr>image_v = Some ''B'', mask_v = Some ''M''\<rparr>\<rparr>" and p =
      "\<lparr>image_v = Some ''B'', mask_v = Some ''M''\<rparr>"]
    processMessages_unvalidated [where e =
      "\<lparr>origin = ''https://evil.example'', source = 7,
       data = Some \<lparr>msg_type = Some ''loaded'', detail = None\<rparr>\<rparr>"
      and org = "''https://evil.example''" and w = 7 and s =
      "\<lparr>imageEditor = Iframe True, imageEditorValue = None,
       editor_value = \<lparr>image_v = Some ''A'', mask_v = None\<rparr>, posted = [], dispatched = []\<rparr>" and d =
      "\<lparr>msg_type = Some ''loaded'', detail = None\<rparr>" and p =
      "\<lparr>image_v = None, mask_v = None\<rparr>"]
  by simp

text \<open>
  C9, as stated, fails for a message of type \<^verbatim>\<open>'image-editor-output'\<close> without a
  \<^verbatim>\<open>detail\<close>: reading \<^verbatim>\<open>e.data.detail.image\<close> throws, nothing is adopted and no event
  is dispatched. It also fails for a \<^verbatim>\<open>'loaded'\<close> message while the iframe has no
  content window: the optional call posts nothing.
\<close>

theorem output_without_detail_throws:
  "processMessages
     \<lparr>origin = ''https://evil.example'', source = 7,
       data = Some \<lparr>msg_type = Some ''image-editor-output'', detail = None\<rparr>\<rparr>
     \<lparr>imageEditor = Iframe True, imageEditorValue = None,
       editor_value = \<lparr>image_v = Some ''A'', mask_v = None\<rparr>, posted = [], dispatched = []\<rparr>
   = Inl TypeError \<and>
   processMessages
     \<lparr>origin = ''https://evil.example'', source = 7,
       data = Some \<lparr>msg_type = Some ''loaded'', detail = None\<rparr>\<rparr>
     \<lparr>imageEditor = Iframe False, imageEditorValue = None,
       editor_value = \<lparr>image_v = Some ''A'', mask_v = None\<rparr>, posted = [], dispatched = []\<rparr>
   = Inr \<lparr>imageEditor = Iframe False, imageEditorValue = None,
          editor_value = \<lparr>image_v = Some ''A'', mask_v = None\<rparr>, posted = [], dispatched = []\<rparr>"
  by (simp add: processMessages_def on_loaded_def on_output_def data_type_def)

text \<open>
  C10. After \<^verbatim>\<open>processMessages\<close> has handled a message of type
  \<^verbatim>\<open>'image-editor-output'\<close>, \<^verbatim>\<open>imageEditorValue\<close> equals \<^verbatim>\<open>value.image\<close>; the run of
  \<^verbatim>\<open>compareValues\<close> on the new value therefore changes nothing, and the handler itself
  has posted nothing: the adopted image is not sent back to the iframe.
\<close>

theorem output_is_not_echoed:
  assumes "data_type e = Some ''image-editor-output''" and "processMessages e s = Inr s'"
  shows "imageEditorValue s' = image_v (editor_value s') \<and>
         compareValues (editor_value s') s' = s' \<and>
         posted s' = posted s"
  using assms
  by (auto simp: processMessages_def on_loaded_def on_output_def compareValues_def data_type_def
        split: option.splits iframe.splits if_splits)

theorem output_is_not_echoed_witness:
  "processMessages
     \<lparr>origin = ''https://editor.example'', source = 2,
       data = Some \<lparr>msg_type = Some ''image-editor-output'',
                    detail = Some \<lparr>image_v = Some ''B'', mask_v = Some ''M''\<rparr>\<rparr>\<rparr>
     \<lparr>imageEditor = Iframe True, imageEditorValue = Some ''A'',
       editor_value = \<lparr>image_v = Some ''A'', mask_v = None\<rparr>, posted = [], dispatched = []\<rparr>
   = Inr \<lparr>imageEditor = Iframe True, imageEditorValue = Some ''B'',
          editor_value = \<lparr>image_v = Some ''B'', mask_v = Some ''M''\<rparr>, posted = [],
          dispatched = [(''change'', \<lparr>image_v = Some ''B'', mask_v = Some ''M''\<rparr>)]\<rparr> \<and>
   compareValues \<lparr>image_v = Some ''B'', mask_v = Some ''M''\<rparr>
     \<lparr>imageEditor = Iframe True, imageEditorValue = Some ''B'',
       editor_value = \<lparr>image_v = Some ''B'', mask_v = Some ''M''\<rparr>, posted = [],
       dispatched = [(''change'', \<lparr>image_v = Some ''B'', mask_v = Some ''M''\<rparr>)]\<rparr>
   = \<lparr>imageEditor = Iframe True, imageEditorValue = Some ''B'',
       editor_value = \<lparr>image_v = Some ''B'', mask_v = Some ''M''\<rparr>, posted = [],
       dispatched = [(''change'', \<lparr>image_v = Some ''B'', mask_v = Some ''M''\<rparr>)]\<rparr>"
proof -
  let ?e = "\<lparr>origin = ''https://editor.example'', source = 2,
       data = Some \<lparr>msg_type = Some ''image-editor-output'',
                    detail = Some \<lparr>image_v = Some ''B'', mask_v = Some ''M''\<rparr>\<rparr>\<rparr>"
  let ?s = "\<lparr>imageEditor = Iframe True, imageEditorValue = Some ''A'',
       editor_value = \<lparr>image_v = Some ''A'', mask_v = None\<rparr>, posted = [], dispatched = []\<rparr>"
  let ?s' = "\<lparr>imageEditor = Iframe True, imageEditorValue = Some ''B'',
          editor_value = \<lparr>image_v = Some ''B'', mask_v = Some ''M''\<rparr>, posted = [],
          dispatched = [(''change'', \<lparr>image_v = Some ''B'', mask_v = Some ''M''\<rparr>)]\<rparr>"
  have t: "data_type ?e = Some ''image-editor-output''" by (simp add: data_type_def)
  have r: "processMessages ?e ?s = Inr ?s'"
    by (simp add: processMessages_def on_loaded_def on_output_def data_type_def)
  from output_is_not_echoed [OF t r] r show ?thesis by simp
qed

end
